theory Spec2Isabelle
  imports Complex_Main "HOL-Library.Code_Target_Numeral"
begin

section \<open>Numbers, arrays and errors\<close>

text \<open>
  The controller computes with Python floats and numpy arrays of floats. The stages
  are modelled twice. Over the real numbers they are the formulas of the source as
  written, for the properties of the formulas themselves: the clamps, the mixing
  matrix, zero error. There a division whose divisor is zero has no real number as
  its result, so \<open>np_div\<close> returns \<open>None\<close> and every function that divides returns an
  option. In IEEE binary64 arithmetic, further below, they are the same statements
  with rounding, infinities and nan, for the properties that these decide.

  A numpy array of two or three floats is a pair or a triple, the 3x3 rotation matrix
  is the triple of its rows, and \<open>at2\<close>, \<open>at3\<close>, \<open>mat_at\<close> read them by index
  (the code uses the literal indices 0, 1 and 2 only).
\<close>

type_synonym vec2 = "real \<times> real"
type_synonym vec3 = "real \<times> real \<times> real"
type_synonym mat3 = "vec3 \<times> vec3 \<times> vec3"

definition at2 :: "vec2 \<Rightarrow> nat \<Rightarrow> real" where
  "at2 v i = (case v of (a, b) \<Rightarrow> if i = 0 then a else b)"

definition at3 :: "vec3 \<Rightarrow> nat \<Rightarrow> real" where
  "at3 v i = (case v of (a, b, c) \<Rightarrow> if i = 0 then a else if i = 1 then b else c)"

definition mat_row :: "mat3 \<Rightarrow> nat \<Rightarrow> vec3" where
  "mat_row R i = (case R of (r0, r1, r2) \<Rightarrow> if i = 0 then r0 else if i = 1 then r1 else r2)"

definition mat_at :: "mat3 \<Rightarrow> nat \<Rightarrow> nat \<Rightarrow> real" where
  "mat_at R i j = at3 (mat_row R i) j"

definition np_div :: "real \<Rightarrow> real \<Rightarrow> real option" where
  "np_div x y = (if y = 0 then None else Some (x / y))"

definition np_clip :: "real \<Rightarrow> real \<Rightarrow> real \<Rightarrow> real" where
  "np_clip x a_min a_max = min (max x a_min) a_max"

text \<open>Arithmetic of 3-element arrays with each other and with a scalar.\<close>

definition vsub :: "vec3 \<Rightarrow> vec3 \<Rightarrow> vec3" where
  "vsub u v = (case u of (a, b, c) \<Rightarrow> case v of (d, e, f) \<Rightarrow> (a - d, b - e, c - f))"

definition vadd :: "vec3 \<Rightarrow> vec3 \<Rightarrow> vec3" where
  "vadd u v = (case u of (a, b, c) \<Rightarrow> case v of (d, e, f) \<Rightarrow> (a + d, b + e, c + f))"

definition vscale :: "vec3 \<Rightarrow> real \<Rightarrow> vec3" where
  "vscale u s = (case u of (a, b, c) \<Rightarrow> (a * s, b * s, c * s))"

definition vdiv :: "vec3 \<Rightarrow> real \<Rightarrow> vec3 option" where
  "vdiv u s = (case u of (a, b, c) \<Rightarrow> if s = 0 then None else Some (a / s, b / s, c / s))"

text \<open>\<open>np.matmul\<close> of a 2x2 array with a 2-element array, and a scalar times an array.\<close>

definition matmul2 :: "vec2 \<times> vec2 \<Rightarrow> vec2 \<Rightarrow> vec2" where
  "matmul2 M v =
     (case M of ((m00, m01), (m10, m11)) \<Rightarrow>
        case v of (x, y) \<Rightarrow> (m00 * x + m01 * y, m10 * x + m11 * y))"

definition smul2 :: "real \<Rightarrow> vec2 \<Rightarrow> vec2" where
  "smul2 s v = (case v of (x, y) \<Rightarrow> (s * x, s * y))"

text \<open>
  The exceptions the trajectory sampler can raise: \<open>np.argmin\<close> of an empty array
  (ValueError) and a list index out of range (IndexError).
\<close>

datatype error = ValueError | IndexError

definition bindE :: "error + 'a \<Rightarrow> ('a \<Rightarrow> error + 'b) \<Rightarrow> error + 'b" where
  "bindE m f = (case m of Inl e \<Rightarrow> Inl e | Inr v \<Rightarrow> f v)"

text \<open>
  Python's \<open>xs[i]\<close>: a negative index counts from the end of the list, and an index
  outside \<open>-len(xs) .. len(xs) - 1\<close> raises IndexError.
\<close>

definition py_index :: "'a list \<Rightarrow> int \<Rightarrow> error + 'a" where
  "py_index xs i =
     (if 0 \<le> i \<and> i < int (length xs) then Inr (xs ! nat i)
      else if i < 0 \<and> - int (length xs) \<le> i then Inr (xs ! nat (int (length xs) + i))
      else Inl IndexError)"

text \<open>
  \<open>np.argmin\<close>: the index of the first occurrence of the least element, ValueError
  on an empty array. The loop keeps the best index and value seen so far and replaces
  them only by a strictly smaller element.
\<close>

fun argmin_loop :: "real list \<Rightarrow> nat \<Rightarrow> nat \<Rightarrow> real \<Rightarrow> nat" where
  "argmin_loop [] i best_i best = best_i"
| "argmin_loop (x # xs) i best_i best =
     (if x < best then argmin_loop xs (Suc i) i x else argmin_loop xs (Suc i) best_i best)"

definition np_argmin :: "real list \<Rightarrow> error + nat" where
  "np_argmin a = (case a of [] \<Rightarrow> Inl ValueError | x # xs \<Rightarrow> Inr (argmin_loop xs 1 0 x))"

text \<open>
  Python's float \<open>x % y\<close> for a positive divisor: the remainder has the sign of the
  divisor, \<open>x - y * floor (x / y)\<close>.
\<close>

definition py_fmod :: "real \<Rightarrow> real \<Rightarrow> real" where
  "py_fmod x y = x - y * of_int \<lfloor>x / y\<rfloor>"

section \<open>Constants of the controller\<close>

definition DRONE_MASS_KG :: real where
  "DRONE_MASS_KG = 0.5"

definition GRAVITY :: real where
  "GRAVITY = - 9.81"

definition MOI :: vec3 where
  "MOI = (0.005, 0.005, 0.01)"

definition MAX_THRUST :: real where
  "MAX_THRUST = 10.0"

definition MAX_TORQUE :: real where
  "MAX_TORQUE = 1.0"

definition EPSILON :: real where
  "EPSILON = 1 / 10000"

definition MAX_TILT :: real where
  "MAX_TILT = 1.0"

section \<open>The scalar feedback laws\<close>

record PDController =
  k_p :: real
  k_d :: real

text \<open>\<open>PDController.control\<close>, with the feed-forward term passed explicitly.\<close>

definition control :: "PDController \<Rightarrow> real \<Rightarrow> real \<Rightarrow> real \<Rightarrow> real" where
  "control c error error_dot feed_forward = k_p c * error + k_d c * error_dot + feed_forward"

text \<open>
  \<open>PController\<close> is a \<open>PDController\<close> built with \<open>k_d = 0\<close>; its \<open>control\<close> takes
  the error only and calls the PD law with zero error rate and zero feed-forward.
\<close>

definition PController :: "real \<Rightarrow> PDController" where
  "PController kp = \<lparr>k_p = kp, k_d = 0.0\<rparr>"

definition control_P :: "PDController \<Rightarrow> real \<Rightarrow> real" where
  "control_P c error = control c error 0.0 0.0"

definition normalize_angle :: "real \<Rightarrow> real" where
  "normalize_angle x =
     (let x1 = py_fmod (x + pi) (2.0 * pi);
          x2 = (if x1 < 0 then x1 + 2.0 * pi else x1)
      in x2 - pi)"

section \<open>The controller\<close>

record NonlinearController =
  altitude_controller :: PDController
  yaw_controller :: PDController
  p_controller :: PDController
  q_controller :: PDController
  r_controller :: PDController
  roll_controller :: PDController
  pitch_controller :: PDController
  x_controller :: PDController
  y_controller :: PDController

text \<open>\<open>NonlinearController.__init__\<close>: the gains of every stage.\<close>

definition init :: NonlinearController where
  "init =
     (let pq_controller = PController 20.0;
          roll_pitch_controller = PController 8.0;
          xy_controller = \<lparr>k_p = 5.0, k_d = 4.0\<rparr>
      in \<lparr>altitude_controller = \<lparr>k_p = 8.0, k_d = 4.0\<rparr>,
          yaw_controller = PController 5.5,
          p_controller = pq_controller,
          q_controller = pq_controller,
          r_controller = PController 7.5,
          roll_controller = roll_pitch_controller,
          pitch_controller = roll_pitch_controller,
          x_controller = xy_controller,
          y_controller = xy_controller\<rparr>)"

subsection \<open>Trajectory sampling\<close>

text \<open>
  The last two statements of \<open>trajectory_control\<close>: the position and velocity
  commands from the two samples chosen. Both divide an array by \<open>time1 - time0\<close>.
\<close>

definition interpolate ::
  "vec3 \<Rightarrow> vec3 \<Rightarrow> real \<Rightarrow> real \<Rightarrow> real \<Rightarrow> vec3 option \<times> vec3 option" where
  "interpolate position0 position1 time0 time1 current_time =
     (let position_cmd =
            map_option (\<lambda>v. vadd v position0)
              (vdiv (vscale (vsub position1 position0) (current_time - time0)) (time1 - time0));
          velocity_cmd = vdiv (vsub position1 position0) (time1 - time0)
      in (position_cmd, velocity_cmd))"

definition trajectory_control ::
  "NonlinearController \<Rightarrow> vec3 list \<Rightarrow> real list \<Rightarrow> real list \<Rightarrow> real \<Rightarrow>
     error + (vec3 option \<times> vec3 option \<times> real)" where
  "trajectory_control self position_trajectory yaw_trajectory time_trajectory current_time =
     bindE (np_argmin (map (\<lambda>t. \<bar>t - current_time\<bar>) time_trajectory)) (\<lambda>n.
     let ind_min = int n in
     bindE (py_index time_trajectory ind_min) (\<lambda>time_ref.
     if current_time < time_ref then
       bindE (py_index position_trajectory (ind_min - 1)) (\<lambda>position0.
       bindE (py_index position_trajectory ind_min) (\<lambda>position1.
       bindE (py_index time_trajectory (ind_min - 1)) (\<lambda>time0.
       bindE (py_index time_trajectory ind_min) (\<lambda>time1.
       bindE (py_index yaw_trajectory (ind_min - 1)) (\<lambda>yaw_cmd.
       case interpolate position0 position1 time0 time1 current_time of
         (position_cmd, velocity_cmd) \<Rightarrow> Inr (position_cmd, velocity_cmd, yaw_cmd))))))
     else
       bindE (py_index yaw_trajectory ind_min) (\<lambda>yaw_cmd.
       if ind_min \<ge> int (length position_trajectory) - 1 then
         bindE (py_index position_trajectory ind_min) (\<lambda>position0.
         bindE (py_index position_trajectory ind_min) (\<lambda>position1.
         case interpolate position0 position1 0.0 1.0 current_time of
           (position_cmd, velocity_cmd) \<Rightarrow> Inr (position_cmd, velocity_cmd, yaw_cmd)))
       else
         bindE (py_index position_trajectory ind_min) (\<lambda>position0.
         bindE (py_index position_trajectory (ind_min + 1)) (\<lambda>position1.
         bindE (py_index time_trajectory ind_min) (\<lambda>time0.
         bindE (py_index time_trajectory (ind_min + 1)) (\<lambda>time1.
         case interpolate position0 position1 time0 time1 current_time of
           (position_cmd, velocity_cmd) \<Rightarrow> Inr (position_cmd, velocity_cmd, yaw_cmd))))))))"

subsection \<open>The stages of the cascade\<close>

definition lateral_position_control ::
  "NonlinearController \<Rightarrow> vec2 \<Rightarrow> vec2 \<Rightarrow> vec2 \<Rightarrow> vec2 \<Rightarrow> vec2 \<Rightarrow> vec2" where
  "lateral_position_control self local_position_cmd local_velocity_cmd local_position
       local_velocity acceleration_ff =
     (let acc_x = control (x_controller self)
                    (at2 local_position_cmd 0 - at2 local_position 0)
                    (at2 local_velocity_cmd 0 - at2 local_velocity 0)
                    (at2 acceleration_ff 0);
          acc_y = control (y_controller self)
                    (at2 local_position_cmd 1 - at2 local_position 1)
                    (at2 local_velocity_cmd 1 - at2 local_velocity 1)
                    (at2 acceleration_ff 1)
      in (acc_x, acc_y))"

text \<open>
  \<open>euler2RM\<close> is imported from the module \<open>frame_utils\<close>; it is a parameter of the
  two stages that call it, from roll, pitch and yaw to the rotation matrix. On their
  degenerate branches both stages print a message and return the initial zero command;
  the printed text is not part of the model.
\<close>

definition altitude_control ::
  "(real \<Rightarrow> real \<Rightarrow> real \<Rightarrow> mat3) \<Rightarrow> NonlinearController \<Rightarrow>
     real \<Rightarrow> real \<Rightarrow> real \<Rightarrow> real \<Rightarrow> vec3 \<Rightarrow> real \<Rightarrow> real option" where
  "altitude_control euler2RM self altitude_cmd vertical_velocity_cmd altitude vertical_velocity
       attitude acceleration_ff =
     (let thrust = 0.0;
          R = euler2RM (at3 attitude 0) (at3 attitude 1) (at3 attitude 2);
          b_z = mat_at R 2 2
      in if \<bar>b_z\<bar> > EPSILON then
           (let error_z = altitude_cmd - altitude;
                error_z_dot = vertical_velocity_cmd - vertical_velocity;
                u_1_bar = control (altitude_controller self) error_z error_z_dot acceleration_ff
            in map_option (\<lambda>thrust. np_clip thrust 0.0 MAX_THRUST)
                 (np_div (DRONE_MASS_KG * u_1_bar) b_z))
         else Some thrust)"

definition roll_pitch_controller ::
  "(real \<Rightarrow> real \<Rightarrow> real \<Rightarrow> mat3) \<Rightarrow> NonlinearController \<Rightarrow>
     vec2 \<Rightarrow> vec3 \<Rightarrow> real \<Rightarrow> vec2 option" where
  "roll_pitch_controller euler2RM self acceleration_cmd attitude thrust_cmd =
     (let roll_pitch_rate_cmd = (0.0, 0.0) in
      if \<bar>thrust_cmd\<bar> > EPSILON then
        (let R = euler2RM (at3 attitude 0) (at3 attitude 1) (at3 attitude 2) in
         if \<bar>mat_at R 2 2\<bar> > EPSILON then
           (let b_a_x = mat_at R 0 2;
                b_a_y = mat_at R 1 2
            in Option.bind (np_div (at2 acceleration_cmd 0) (- thrust_cmd / DRONE_MASS_KG)) (\<lambda>b_c_x.
               Option.bind (np_div (at2 acceleration_cmd 1) (- thrust_cmd / DRONE_MASS_KG)) (\<lambda>b_c_y.
               let b_c_x = np_clip b_c_x (- MAX_TILT) MAX_TILT;
                   b_c_y = np_clip b_c_y (- MAX_TILT) MAX_TILT;
                   b_c_x_dot = control_P (roll_controller self) (b_c_x - b_a_x);
                   b_c_y_dot = control_P (pitch_controller self) (b_c_y - b_a_y);
                   M = ((mat_at R 1 0, - mat_at R 0 0),
                        (mat_at R 1 1, - mat_at R 0 1));
                   b_c_dot = (b_c_x_dot, b_c_y_dot)
               in map_option (\<lambda>s. smul2 s (matmul2 M b_c_dot)) (np_div 1.0 (mat_at R 2 2)))))
         else Some roll_pitch_rate_cmd)
      else Some roll_pitch_rate_cmd)"

definition body_rate_control :: "NonlinearController \<Rightarrow> vec3 \<Rightarrow> vec3 \<Rightarrow> vec3" where
  "body_rate_control self body_rate_cmd body_rate =
     (let moment_p = at3 MOI 0 * control_P (p_controller self) (at3 body_rate_cmd 0 - at3 body_rate 0);
          moment_q = at3 MOI 1 * control_P (q_controller self) (at3 body_rate_cmd 1 - at3 body_rate 1);
          moment_r = at3 MOI 2 * control_P (r_controller self) (at3 body_rate_cmd 2 - at3 body_rate 2);
          moment_p = np_clip moment_p (- MAX_TORQUE) MAX_TORQUE;
          moment_q = np_clip moment_q (- MAX_TORQUE) MAX_TORQUE;
          moment_r = np_clip moment_r (- MAX_TORQUE) MAX_TORQUE
      in (moment_p, moment_q, moment_r))"

definition yaw_control :: "NonlinearController \<Rightarrow> real \<Rightarrow> real \<Rightarrow> real" where
  "yaw_control self yaw_cmd yaw =
     (let error = normalize_angle (yaw_cmd - yaw)
      in control_P (yaw_controller self) error)"

subsection \<open>The rotation-matrix provider\<close>

text \<open>
  Modelled from the spec: the code of \<open>euler2RM\<close> (module \<open>frame_utils\<close>) is not part
  of the sources at hand. The spec names its result a rotation matrix, the 3x3 matrix
  that converts between the body frame and the world frame. A rotation matrix has
  orthonormal rows and determinant 1; \<open>row_dot R i j\<close> is the entry \<open>(i, j)\<close> of the
  product of \<open>R\<close> with its transpose.
\<close>

definition row_dot :: "mat3 \<Rightarrow> nat \<Rightarrow> nat \<Rightarrow> real" where
  "row_dot R i j =
     mat_at R i 0 * mat_at R j 0 + mat_at R i 1 * mat_at R j 1 + mat_at R i 2 * mat_at R j 2"

definition det3 :: "mat3 \<Rightarrow> real" where
  "det3 R =
     mat_at R 0 0 * (mat_at R 1 1 * mat_at R 2 2 - mat_at R 1 2 * mat_at R 2 1)
     - mat_at R 0 1 * (mat_at R 1 0 * mat_at R 2 2 - mat_at R 1 2 * mat_at R 2 0)
     + mat_at R 0 2 * (mat_at R 1 0 * mat_at R 2 1 - mat_at R 1 1 * mat_at R 2 0)"

definition rotation_matrix :: "mat3 \<Rightarrow> bool" where
  \<comment> \<open>Modelled from the spec: what the absent \<open>euler2RM\<close> returns.\<close>
  "rotation_matrix R \<longleftrightarrow>
     row_dot R 0 0 = 1 \<and> row_dot R 1 1 = 1 \<and> row_dot R 2 2 = 1 \<and>
     row_dot R 0 1 = 0 \<and> row_dot R 0 2 = 0 \<and> row_dot R 1 2 = 0 \<and>
     det3 R = 1"

section \<open>IEEE binary64 arithmetic\<close>

text \<open>
  The code's numbers are doubles. Where a property turns on rounding, on overflow to
  an infinity or on nan, the stage is modelled a second time in binary64 arithmetic,
  under the name of the source function with the suffix \<open>64\<close>.

  A double is a finite number with a sign and a magnitude (\<open>Fin True 0\<close> is \<open>-0.0\<close>),
  an infinity with a sign, or nan. Every operation computes the exact real result and
  rounds its magnitude to the nearest double, ties to the even significand:
  \<open>exponent m\<close> is the binary exponent of \<open>m\<close>, at least \<open>-1022\<close> (the subnormal
  range), one unit in the last place is \<open>2 ^ (exponent m - 52)\<close>, and a rounded
  magnitude of \<open>2 ^ 1024\<close> or more is an overflow. \<open>lit v\<close> is the double that the
  decimal literal \<open>v\<close> denotes.
\<close>

datatype f64 = Fin bool real | Inf bool | NaN

definition pow2 :: "int \<Rightarrow> real" where
  "pow2 k = (if 0 \<le> k then 2 ^ nat k else 1 / 2 ^ nat (- k))"

text \<open>\<open>ilog2 n\<close> is the position of the highest set bit of \<open>n\<close>, found 64 bits at a time.\<close>

fun ilog2 :: "nat \<Rightarrow> nat" where
  "ilog2 n =
     (if n < 2 then 0
      else if n < 18446744073709551616 then Suc (ilog2 (n div 2))
      else 64 + ilog2 (n div 18446744073709551616))"

declare ilog2.simps [simp del]

definition exponent :: "real \<Rightarrow> int" where
  "exponent m =
     max (- 1022)
       (if 1 \<le> m then int (ilog2 (nat \<lfloor>m\<rfloor>))
        else - int (Suc (ilog2 (nat \<lceil>1 / m\<rceil> - 1))))"

definition round_even :: "real \<Rightarrow> int" where
  "round_even q =
     (let f = \<lfloor>q\<rfloor>; r = q - of_int f
      in if r < 1 / 2 then f else if 1 / 2 < r then f + 1 else if even f then f else f + 1)"

definition round_mag :: "real \<Rightarrow> real option" where
  \<comment> \<open>the magnitude rounded to a double; \<open>None\<close> is an overflow\<close>
  "round_mag m =
     (if m = 0 then Some 0
      else let u = pow2 (exponent m - 52);
               r = of_int (round_even (m / u)) * u
           in if pow2 1024 \<le> r then None else Some r)"

definition round64 :: "bool \<Rightarrow> real \<Rightarrow> f64" where
  "round64 s m = (case round_mag m of None \<Rightarrow> Inf s | Some r \<Rightarrow> Fin s r)"

definition lit :: "real \<Rightarrow> f64" where
  "lit v = round64 (v < 0) \<bar>v\<bar>"

definition sval :: "bool \<Rightarrow> real \<Rightarrow> real" where
  "sval s m = (if s then - m else m)"

fun is_nan :: "f64 \<Rightarrow> bool" where
  "is_nan NaN = True"
| "is_nan x = False"

fun fneg :: "f64 \<Rightarrow> f64" where
  "fneg (Fin s m) = Fin (\<not> s) m"
| "fneg (Inf s) = Inf (\<not> s)"
| "fneg NaN = NaN"

fun fabs :: "f64 \<Rightarrow> f64" where
  "fabs (Fin s m) = Fin False m"
| "fabs (Inf s) = Inf False"
| "fabs NaN = NaN"

text \<open>An exact sum of zero is \<open>+0.0\<close> unless both operands are negative.\<close>

fun fadd :: "f64 \<Rightarrow> f64 \<Rightarrow> f64" where
  "fadd (Fin s1 m1) (Fin s2 m2) =
     (let v = sval s1 m1 + sval s2 m2
      in if v = 0 then Fin (s1 \<and> s2) 0 else round64 (v < 0) \<bar>v\<bar>)"
| "fadd (Fin s1 m1) (Inf s2) = Inf s2"
| "fadd (Inf s1) (Fin s2 m2) = Inf s1"
| "fadd (Inf s1) (Inf s2) = (if s1 = s2 then Inf s1 else NaN)"
| "fadd NaN y = NaN"
| "fadd x NaN = NaN"

definition fsub :: "f64 \<Rightarrow> f64 \<Rightarrow> f64" where
  "fsub x y = fadd x (fneg y)"

fun fmul :: "f64 \<Rightarrow> f64 \<Rightarrow> f64" where
  "fmul (Fin s1 m1) (Fin s2 m2) = round64 (s1 \<noteq> s2) (m1 * m2)"
| "fmul (Fin s1 m1) (Inf s2) = (if m1 = 0 then NaN else Inf (s1 \<noteq> s2))"
| "fmul (Inf s1) (Fin s2 m2) = (if m2 = 0 then NaN else Inf (s1 \<noteq> s2))"
| "fmul (Inf s1) (Inf s2) = Inf (s1 \<noteq> s2)"
| "fmul NaN y = NaN"
| "fmul x NaN = NaN"

text \<open>
  Division as numpy does it: a zero divisor gives an infinity, or nan for \<open>0 / 0\<close>, and
  no exception.
\<close>

fun fdiv :: "f64 \<Rightarrow> f64 \<Rightarrow> f64" where
  "fdiv (Fin s1 m1) (Fin s2 m2) =
     (if m2 = 0 then (if m1 = 0 then NaN else Inf (s1 \<noteq> s2))
      else round64 (s1 \<noteq> s2) (m1 / m2))"
| "fdiv (Fin s1 m1) (Inf s2) = Fin (s1 \<noteq> s2) 0"
| "fdiv (Inf s1) (Fin s2 m2) = Inf (s1 \<noteq> s2)"
| "fdiv (Inf s1) (Inf s2) = NaN"
| "fdiv NaN y = NaN"
| "fdiv x NaN = NaN"

text \<open>Comparisons: every comparison with nan is false, and \<open>-0.0\<close> equals \<open>+0.0\<close>.\<close>

fun flt :: "f64 \<Rightarrow> f64 \<Rightarrow> bool" where
  "flt (Fin s1 m1) (Fin s2 m2) = (sval s1 m1 < sval s2 m2)"
| "flt (Fin s1 m1) (Inf s2) = (\<not> s2)"
| "flt (Inf s1) (Fin s2 m2) = s1"
| "flt (Inf s1) (Inf s2) = (s1 \<and> \<not> s2)"
| "flt NaN y = False"
| "flt x NaN = False"

fun feq :: "f64 \<Rightarrow> f64 \<Rightarrow> bool" where
  "feq (Fin s1 m1) (Fin s2 m2) = (sval s1 m1 = sval s2 m2)"
| "feq (Inf s1) (Inf s2) = (s1 = s2)"
| "feq x y = False"

definition fle :: "f64 \<Rightarrow> f64 \<Rightarrow> bool" where
  "fle x y = (flt x y \<or> feq x y)"

definition fgt :: "f64 \<Rightarrow> f64 \<Rightarrow> bool" where
  "fgt x y = flt y x"

definition fge :: "f64 \<Rightarrow> f64 \<Rightarrow> bool" where
  "fge x y = fle y x"

text \<open>
  C's \<open>fmod\<close> is exact and has the sign of its first argument. Python's and numpy's
  \<open>x % y\<close> take it and, where the remainder is not zero and its sign differs from the
  divisor's, add the divisor, a sum that is rounded; a zero remainder gets the sign of
  the divisor.
\<close>

fun c_fmod :: "f64 \<Rightarrow> f64 \<Rightarrow> f64" where
  "c_fmod (Fin s1 m1) (Fin s2 m2) =
     (if m2 = 0 then NaN else Fin s1 (m1 - m2 * of_int \<lfloor>m1 / m2\<rfloor>))"
| "c_fmod (Fin s1 m1) (Inf s2) = Fin s1 m1"
| "c_fmod (Inf s1) y = NaN"
| "c_fmod NaN y = NaN"
| "c_fmod x NaN = NaN"

fun py_mod64 :: "f64 \<Rightarrow> f64 \<Rightarrow> f64" where
  "py_mod64 x y =
     (case c_fmod x y of
        Fin s m \<Rightarrow>
          if m = 0 then Fin (flt y (Fin False 0)) 0
          else if flt y (Fin False 0) \<noteq> s then fadd (Fin s m) y
          else Fin s m
      | r \<Rightarrow> r)"

text \<open>
  \<open>np.clip\<close>: the maximum with the lower bound, then the minimum with the upper bound;
  a nan argument is returned as it is.
\<close>

definition np_clip64 :: "f64 \<Rightarrow> f64 \<Rightarrow> f64 \<Rightarrow> f64" where
  "np_clip64 x a_min a_max =
     (if is_nan x then x
      else let y = (if fgt x a_min then x else a_min)
           in if is_nan y then y else if flt y a_max then y else a_max)"

text \<open>
  \<open>np.argmin\<close> on doubles: a later element replaces the minimum when it is not greater
  or equal, which a nan is not; once the minimum is nan the search stops.
\<close>

fun argmin64_loop :: "f64 list \<Rightarrow> nat \<Rightarrow> nat \<Rightarrow> f64 \<Rightarrow> nat" where
  "argmin64_loop [] i min_ind mp = min_ind"
| "argmin64_loop (x # xs) i min_ind mp =
     (if is_nan mp then min_ind
      else if \<not> fge x mp then argmin64_loop xs (Suc i) i x
      else argmin64_loop xs (Suc i) min_ind mp)"

definition np_argmin64 :: "f64 list \<Rightarrow> error + nat" where
  "np_argmin64 a = (case a of [] \<Rightarrow> Inl ValueError | x # xs \<Rightarrow> Inr (argmin64_loop xs 1 0 x))"

text \<open>Arrays of three doubles and the rotation matrix of doubles.\<close>

type_synonym vec3f = "f64 \<times> f64 \<times> f64"
type_synonym mat3f = "vec3f \<times> vec3f \<times> vec3f"

definition at3f :: "vec3f \<Rightarrow> nat \<Rightarrow> f64" where
  "at3f v i = (case v of (a, b, c) \<Rightarrow> if i = 0 then a else if i = 1 then b else c)"

definition mat_atf :: "mat3f \<Rightarrow> nat \<Rightarrow> nat \<Rightarrow> f64" where
  "mat_atf R i j =
     at3f (case R of (r0, r1, r2) \<Rightarrow> if i = 0 then r0 else if i = 1 then r1 else r2) j"

definition vsub64 :: "vec3f \<Rightarrow> vec3f \<Rightarrow> vec3f" where
  "vsub64 u v = (case u of (a, b, c) \<Rightarrow> case v of (d, e, f) \<Rightarrow> (fsub a d, fsub b e, fsub c f))"

definition vadd64 :: "vec3f \<Rightarrow> vec3f \<Rightarrow> vec3f" where
  "vadd64 u v = (case u of (a, b, c) \<Rightarrow> case v of (d, e, f) \<Rightarrow> (fadd a d, fadd b e, fadd c f))"

definition vscale64 :: "vec3f \<Rightarrow> f64 \<Rightarrow> vec3f" where
  "vscale64 u s = (case u of (a, b, c) \<Rightarrow> (fmul a s, fmul b s, fmul c s))"

definition vdiv64 :: "vec3f \<Rightarrow> f64 \<Rightarrow> vec3f" where
  "vdiv64 u s = (case u of (a, b, c) \<Rightarrow> (fdiv a s, fdiv b s, fdiv c s))"

text \<open>
  A finite double is a finite value whose magnitude rounding leaves as it is. Two
  arrays are equal as numpy compares them when their components are (\<open>feq\<close>).
\<close>

definition finite64 :: "f64 \<Rightarrow> bool" where
  "finite64 x = (case x of Fin s m \<Rightarrow> 0 \<le> m \<and> round_mag m = Some m | _ \<Rightarrow> False)"

definition vfinite64 :: "vec3f \<Rightarrow> bool" where
  "vfinite64 v = (case v of (a, b, c) \<Rightarrow> finite64 a \<and> finite64 b \<and> finite64 c)"

definition veq64 :: "vec3f \<Rightarrow> vec3f \<Rightarrow> bool" where
  "veq64 u v = (case u of (a, b, c) \<Rightarrow> case v of (d, e, f) \<Rightarrow> feq a d \<and> feq b e \<and> feq c f)"

text \<open>The double \<open>1e308\<close>, a name under which proofs keep it folded.\<close>

definition huge64 :: f64 where
  "huge64 = lit (10 ^ 308)"

section \<open>The stages in binary64\<close>

text \<open>
  \<open>np.pi\<close> is the double nearest to pi, which the literal \<open>3.141592653589793\<close> denotes.
  The constants are the doubles that the literals \<open>0.5\<close>, \<open>10.0\<close> and \<open>1.0E-4\<close> of
  the source denote.
\<close>

definition np_pi :: f64 where
  "np_pi = lit 3.141592653589793"

definition DRONE_MASS_KG64 :: f64 where
  "DRONE_MASS_KG64 = lit 0.5"

definition MAX_THRUST64 :: f64 where
  "MAX_THRUST64 = lit 10.0"

definition EPSILON64 :: f64 where
  "EPSILON64 = lit 0.0001"

record PDController64 =
  k_p64 :: f64
  k_d64 :: f64

definition control64 :: "PDController64 \<Rightarrow> f64 \<Rightarrow> f64 \<Rightarrow> f64 \<Rightarrow> f64" where
  "control64 c error error_dot feed_forward =
     fadd (fadd (fmul (k_p64 c) error) (fmul (k_d64 c) error_dot)) feed_forward"

definition PController64 :: "f64 \<Rightarrow> PDController64" where
  "PController64 kp = \<lparr>k_p64 = kp, k_d64 = lit 0.0\<rparr>"

definition control_P64 :: "PDController64 \<Rightarrow> f64 \<Rightarrow> f64" where
  "control_P64 c error = control64 c error (lit 0.0) (lit 0.0)"

definition normalize_angle64 :: "f64 \<Rightarrow> f64" where
  "normalize_angle64 x =
     (let x1 = py_mod64 (fadd x np_pi) (fmul (lit 2.0) np_pi);
          x2 = (if flt x1 (lit 0) then fadd x1 (fmul (lit 2.0) np_pi) else x1)
      in fsub x2 np_pi)"

text \<open>The two controllers of \<open>__init__\<close> that the binary64 stages use.\<close>

record NonlinearController64 =
  altitude_controller64 :: PDController64
  yaw_controller64 :: PDController64

definition init64 :: NonlinearController64 where
  "init64 =
     \<lparr>altitude_controller64 = \<lparr>k_p64 = lit 8.0, k_d64 = lit 4.0\<rparr>,
      yaw_controller64 = PController64 (lit 5.5)\<rparr>"

definition interpolate64 ::
  "vec3f \<Rightarrow> vec3f \<Rightarrow> f64 \<Rightarrow> f64 \<Rightarrow> f64 \<Rightarrow> vec3f \<times> vec3f" where
  "interpolate64 position0 position1 time0 time1 current_time =
     (let position_cmd =
            vadd64
              (vdiv64 (vscale64 (vsub64 position1 position0) (fsub current_time time0))
                 (fsub time1 time0))
              position0;
          velocity_cmd = vdiv64 (vsub64 position1 position0) (fsub time1 time0)
      in (position_cmd, velocity_cmd))"

definition trajectory_control64 ::
  "vec3f list \<Rightarrow> f64 list \<Rightarrow> f64 list \<Rightarrow> f64 \<Rightarrow> error + (vec3f \<times> vec3f \<times> f64)" where
  "trajectory_control64 position_trajectory yaw_trajectory time_trajectory current_time =
     bindE (np_argmin64 (map (\<lambda>t. fabs (fsub t current_time)) time_trajectory)) (\<lambda>n.
     let ind_min = int n in
     bindE (py_index time_trajectory ind_min) (\<lambda>time_ref.
     if flt current_time time_ref then
       bindE (py_index position_trajectory (ind_min - 1)) (\<lambda>position0.
       bindE (py_index position_trajectory ind_min) (\<lambda>position1.
       bindE (py_index time_trajectory (ind_min - 1)) (\<lambda>time0.
       bindE (py_index time_trajectory ind_min) (\<lambda>time1.
       bindE (py_index yaw_trajectory (ind_min - 1)) (\<lambda>yaw_cmd.
       case interpolate64 position0 position1 time0 time1 current_time of
         (position_cmd, velocity_cmd) \<Rightarrow> Inr (position_cmd, velocity_cmd, yaw_cmd))))))
     else
       bindE (py_index yaw_trajectory ind_min) (\<lambda>yaw_cmd.
       if ind_min \<ge> int (length position_trajectory) - 1 then
         bindE (py_index position_trajectory ind_min) (\<lambda>position0.
         bindE (py_index position_trajectory ind_min) (\<lambda>position1.
         case interpolate64 position0 position1 (lit 0.0) (lit 1.0) current_time of
           (position_cmd, velocity_cmd) \<Rightarrow> Inr (position_cmd, velocity_cmd, yaw_cmd)))
       else
         bindE (py_index position_trajectory ind_min) (\<lambda>position0.
         bindE (py_index position_trajectory (ind_min + 1)) (\<lambda>position1.
         bindE (py_index time_trajectory ind_min) (\<lambda>time0.
         bindE (py_index time_trajectory (ind_min + 1)) (\<lambda>time1.
         case interpolate64 position0 position1 time0 time1 current_time of
           (position_cmd, velocity_cmd) \<Rightarrow> Inr (position_cmd, velocity_cmd, yaw_cmd))))))))"

definition altitude_control64 ::
  "(f64 \<Rightarrow> f64 \<Rightarrow> f64 \<Rightarrow> mat3f) \<Rightarrow> NonlinearController64 \<Rightarrow>
     f64 \<Rightarrow> f64 \<Rightarrow> f64 \<Rightarrow> f64 \<Rightarrow> vec3f \<Rightarrow> f64 \<Rightarrow> f64" where
  "altitude_control64 euler2RM self altitude_cmd vertical_velocity_cmd altitude vertical_velocity
       attitude acceleration_ff =
     (let thrust = lit 0.0;
          R = euler2RM (at3f attitude 0) (at3f attitude 1) (at3f attitude 2);
          b_z = mat_atf R 2 2
      in if fgt (fabs b_z) EPSILON64 then
           (let error_z = fsub altitude_cmd altitude;
                error_z_dot = fsub vertical_velocity_cmd vertical_velocity;
                u_1_bar = control64 (altitude_controller64 self) error_z error_z_dot acceleration_ff;
                thrust = fdiv (fmul DRONE_MASS_KG64 u_1_bar) b_z
            in np_clip64 thrust (lit 0.0) MAX_THRUST64)
         else thrust)"

definition yaw_control64 :: "NonlinearController64 \<Rightarrow> f64 \<Rightarrow> f64 \<Rightarrow> f64" where
  "yaw_control64 self yaw_cmd yaw =
     (let error = normalize_angle64 (fsub yaw_cmd yaw)
      in control_P64 (yaw_controller64 self) error)"

section \<open>Helper lemmas\<close>

lemma np_clip_bounds:
  "a_min \<le> a_max \<Longrightarrow> a_min \<le> np_clip x a_min a_max \<and> np_clip x a_min a_max \<le> a_max"
  by (simp add: np_clip_def)

lemma py_fmod_small: "0 \<le> x \<Longrightarrow> x < y \<Longrightarrow> py_fmod x y = x"
proof -
  assume x: "0 \<le> x" "x < y"
  then have "\<lfloor>x / y\<rfloor> = 0" by (simp add: floor_eq_iff)
  then show ?thesis by (simp add: py_fmod_def)
qed

lemma normalize_angle_fixed: "- pi \<le> x \<Longrightarrow> x < pi \<Longrightarrow> normalize_angle x = x"
  using py_fmod_small [of "x + pi" "2.0 * pi"] by (simp add: normalize_angle_def Let_def)

section \<open>The roll-pitch stage\<close>

text \<open>
  Claim C3. Whenever \<open>|thrust_cmd| > EPSILON\<close> and \<open>|R[2][2]| > EPSILON\<close>, the tilt
  targets \<open>b_c_x\<close>, \<open>b_c_y\<close> are \<open>acceleration_cmd[k] / (-thrust_cmd / mass)\<close> clamped
  into \<open>[-MAX_TILT, MAX_TILT]\<close>, the tilt rates are \<open>k_p * (b_c - b_a)\<close> with
  \<open>b_a_x = R[0,2]\<close> and \<open>b_a_y = R[1,2]\<close>, and the result is
  \<open>(1 / R[2,2]) * [[R[1,0], -R[0,0]], [R[1,1], -R[0,1]]]\<close> applied to the tilt rates,
  rows and columns in this order.
\<close>

theorem roll_pitch_controller_formula:
  assumes "\<bar>thrust_cmd\<bar> > EPSILON"
    and "\<bar>mat_at (euler2RM (at3 attitude 0) (at3 attitude 1) (at3 attitude 2)) 2 2\<bar> > EPSILON"
  shows
    "(let R = euler2RM (at3 attitude 0) (at3 attitude 1) (at3 attitude 2);
          b_c_x = np_clip (at2 acceleration_cmd 0 / (- thrust_cmd / DRONE_MASS_KG))
                    (- MAX_TILT) MAX_TILT;
          b_c_y = np_clip (at2 acceleration_cmd 1 / (- thrust_cmd / DRONE_MASS_KG))
                    (- MAX_TILT) MAX_TILT;
          b_c_x_dot = k_p (roll_controller self) * (b_c_x - mat_at R 0 2);
          b_c_y_dot = k_p (pitch_controller self) * (b_c_y - mat_at R 1 2)
      in - MAX_TILT \<le> b_c_x \<and> b_c_x \<le> MAX_TILT \<and> - MAX_TILT \<le> b_c_y \<and> b_c_y \<le> MAX_TILT \<and>
         roll_pitch_controller euler2RM self acceleration_cmd attitude thrust_cmd =
           Some (1 / mat_at R 2 2 * (mat_at R 1 0 * b_c_x_dot + (- mat_at R 0 0) * b_c_y_dot),
                 1 / mat_at R 2 2 * (mat_at R 1 1 * b_c_x_dot + (- mat_at R 0 1) * b_c_y_dot)))"
proof -
  have eps: "0 < EPSILON" by (simp add: EPSILON_def)
  have t: "- thrust_cmd / DRONE_MASS_KG \<noteq> 0"
    using assms(1) eps by (auto simp add: DRONE_MASS_KG_def)
  have r: "mat_at (euler2RM (at3 attitude 0) (at3 attitude 1) (at3 attitude 2)) 2 2 \<noteq> 0"
    using assms(2) eps by auto
  have le: "- MAX_TILT \<le> MAX_TILT" by (simp add: MAX_TILT_def)
  show ?thesis
    using assms t r np_clip_bounds [OF le]
    by (simp add: roll_pitch_controller_def Let_def np_div_def control_P_def control_def
        matmul2_def smul2_def)
qed

text \<open>
  Level attitude, thrust 1 N, commanded acceleration \<open>(-6, 1)\<close>: the first tilt target
  3 is clamped to 1, the second is \<open>-0.5\<close>, and the rates are \<open>(4, 8)\<close>.
\<close>

theorem roll_pitch_controller_formula_witness:
  "\<bar>1::real\<bar> > EPSILON \<and> \<bar>mat_at ((1, 0, 0), (0, 1, 0), (0, 0, 1)) 2 2\<bar> > EPSILON \<and>
   roll_pitch_controller (\<lambda>roll pitch yaw. ((1, 0, 0), (0, 1, 0), (0, 0, 1))) init
     (- 6, 1) (0, 0, 0) 1 = Some (4, 8)"
  using roll_pitch_controller_formula
    [of 1 "\<lambda>roll pitch yaw. ((1, 0, 0), (0, 1, 0), (0, 0, 1))" "(0, 0, 0)" "(- 6, 1)" init]
  by (simp add: mat_at_def mat_row_def at3_def at2_def EPSILON_def Let_def np_clip_def
      DRONE_MASS_KG_def MAX_TILT_def init_def PController_def)


subsection \<open>The size of the rate commands\<close>

lemma unit_row_bounded:
  fixes a b c :: real
  assumes "a * a + b * b + c * c = 1"
  shows "\<bar>a\<bar> \<le> 1 \<and> \<bar>b\<bar> \<le> 1 \<and> \<bar>c\<bar> \<le> 1"
proof -
  have sq: "0 \<le> a * a" "0 \<le> b * b" "0 \<le> c * c" by simp_all
  have "a * a \<le> 1" "b * b \<le> 1" "c * c \<le> 1"
    using assms sq by linarith+
  then have "a\<^sup>2 \<le> 1" "b\<^sup>2 \<le> 1" "c\<^sup>2 \<le> 1"
    by (simp_all add: power2_eq_square)
  then show ?thesis by (simp add: abs_square_le_1)
qed

lemma rotation_rows_bounded:
  assumes "rotation_matrix R"
  shows "\<bar>mat_at R 0 0\<bar> \<le> 1" "\<bar>mat_at R 0 1\<bar> \<le> 1" "\<bar>mat_at R 0 2\<bar> \<le> 1"
    "\<bar>mat_at R 1 0\<bar> \<le> 1" "\<bar>mat_at R 1 1\<bar> \<le> 1" "\<bar>mat_at R 1 2\<bar> \<le> 1"
proof -
  have "row_dot R 0 0 = 1" "row_dot R 1 1 = 1"
    using assms by (simp_all add: rotation_matrix_def)
  then show "\<bar>mat_at R 0 0\<bar> \<le> 1" "\<bar>mat_at R 0 1\<bar> \<le> 1" "\<bar>mat_at R 0 2\<bar> \<le> 1"
    "\<bar>mat_at R 1 0\<bar> \<le> 1" "\<bar>mat_at R 1 1\<bar> \<le> 1" "\<bar>mat_at R 1 2\<bar> \<le> 1"
    using unit_row_bounded [of "mat_at R 0 0" "mat_at R 0 1" "mat_at R 0 2"]
      unit_row_bounded [of "mat_at R 1 0" "mat_at R 1 1" "mat_at R 1 2"]
    by (simp_all add: row_dot_def)
qed

text \<open>One mixed rate: bounded factors give a bounded product.\<close>

lemma mixed_rate_bound:
  fixes r a b c x y ba_x ba_y :: real
  assumes r: "\<bar>r\<bar> > EPSILON"
    and a: "\<bar>a\<bar> \<le> 1" and b: "\<bar>b\<bar> \<le> 1"
    and x: "\<bar>x\<bar> \<le> 16" and y: "\<bar>y\<bar> \<le> 16"
  shows "\<bar>1 / r * (a * x + (- b) * y)\<bar> \<le> 320000"
proof -
  have ax: "\<bar>a * x\<bar> \<le> 1 * 16"
    unfolding abs_mult using a x by (intro mult_mono) simp_all
  have by': "\<bar>b * y\<bar> \<le> 1 * 16"
    unfolding abs_mult using b y by (intro mult_mono) simp_all
  have s: "\<bar>a * x + (- b) * y\<bar> \<le> 32"
    using ax by' by (simp add: abs_if split: if_splits)
  have "0 < \<bar>r\<bar>" using r by (simp add: EPSILON_def)
  then have inv: "\<bar>1 / r\<bar> \<le> 10000"
    using r by (simp add: EPSILON_def field_simps)
  have "\<bar>1 / r * (a * x + (- b) * y)\<bar> = \<bar>1 / r\<bar> * \<bar>a * x + (- b) * y\<bar>"
    by (simp only: abs_mult)
  also have "\<dots> \<le> 10000 * 32"
    using inv s by (intro mult_mono) simp_all
  finally show ?thesis by simp
qed

lemma tilt_rate_bound:
  fixes v ba :: real
  assumes "\<bar>ba\<bar> \<le> 1"
  shows "\<bar>k_p (PController 8.0) * (np_clip v (- MAX_TILT) MAX_TILT - ba)\<bar> \<le> 16"
proof -
  have "- MAX_TILT \<le> MAX_TILT" by (simp add: MAX_TILT_def)
  from np_clip_bounds [OF this, of v] have "\<bar>np_clip v (- MAX_TILT) MAX_TILT\<bar> \<le> 1"
    by (simp add: MAX_TILT_def abs_le_iff)
  with assms have "\<bar>np_clip v (- MAX_TILT) MAX_TILT - ba\<bar> \<le> 2" by linarith
  then show ?thesis by (simp add: PController_def abs_mult)
qed

lemma roll_pitch_controller_init:
  assumes "\<bar>thrust_cmd\<bar> > EPSILON"
    and "\<bar>mat_at (euler2RM (at3 attitude 0) (at3 attitude 1) (at3 attitude 2)) 2 2\<bar> > EPSILON"
  shows
    "roll_pitch_controller euler2RM init acceleration_cmd attitude thrust_cmd =
       (let R = euler2RM (at3 attitude 0) (at3 attitude 1) (at3 attitude 2);
            b_c_x_dot = k_p (PController 8.0) *
              (np_clip (at2 acceleration_cmd 0 / (- thrust_cmd / DRONE_MASS_KG)) (- MAX_TILT) MAX_TILT
               - mat_at R 0 2);
            b_c_y_dot = k_p (PController 8.0) *
              (np_clip (at2 acceleration_cmd 1 / (- thrust_cmd / DRONE_MASS_KG)) (- MAX_TILT) MAX_TILT
               - mat_at R 1 2)
        in Some (1 / mat_at R 2 2 * (mat_at R 1 0 * b_c_x_dot + (- mat_at R 0 0) * b_c_y_dot),
                 1 / mat_at R 2 2 * (mat_at R 1 1 * b_c_x_dot + (- mat_at R 0 1) * b_c_y_dot)))"
proof -
  have eps: "0 < EPSILON" by (simp add: EPSILON_def)
  have t: "- thrust_cmd / DRONE_MASS_KG \<noteq> 0"
    using assms(1) eps by (auto simp add: DRONE_MASS_KG_def)
  have r: "mat_at (euler2RM (at3 attitude 0) (at3 attitude 1) (at3 attitude 2)) 2 2 \<noteq> 0"
    using assms(2) eps by auto
  show ?thesis
    using assms t r
    by (simp add: roll_pitch_controller_def Let_def np_div_def control_P_def control_def
        matmul2_def smul2_def init_def)
qed

lemma roll_pitch_rate_bound:
  assumes t: "\<bar>thrust_cmd\<bar> > EPSILON"
    and r: "\<bar>mat_at (euler2RM (at3 attitude 0) (at3 attitude 1) (at3 attitude 2)) 2 2\<bar> > EPSILON"
    and rot: "rotation_matrix (euler2RM (at3 attitude 0) (at3 attitude 1) (at3 attitude 2))"
    and res: "roll_pitch_controller euler2RM init acceleration_cmd attitude thrust_cmd = Some (p, q)"
  shows "\<bar>p\<bar> \<le> 320000 \<and> \<bar>q\<bar> \<le> 320000"
proof -
  define R where "R = euler2RM (at3 attitude 0) (at3 attitude 1) (at3 attitude 2)"
  define x where "x = k_p (PController 8.0) *
     (np_clip (at2 acceleration_cmd 0 / (- thrust_cmd / DRONE_MASS_KG)) (- MAX_TILT) MAX_TILT
      - mat_at R 0 2)"
  define y where "y = k_p (PController 8.0) *
     (np_clip (at2 acceleration_cmd 1 / (- thrust_cmd / DRONE_MASS_KG)) (- MAX_TILT) MAX_TILT
      - mat_at R 1 2)"
  have rot': "rotation_matrix R" using rot by (simp add: R_def)
  have r': "\<bar>mat_at R 2 2\<bar> > EPSILON" using r by (simp add: R_def)
  have x: "\<bar>x\<bar> \<le> 16" unfolding x_def by (rule tilt_rate_bound) (rule rotation_rows_bounded [OF rot'])
  have y: "\<bar>y\<bar> \<le> 16" unfolding y_def by (rule tilt_rate_bound) (rule rotation_rows_bounded [OF rot'])
  have "Some (p, q) =
      Some (1 / mat_at R 2 2 * (mat_at R 1 0 * x + (- mat_at R 0 0) * y),
            1 / mat_at R 2 2 * (mat_at R 1 1 * x + (- mat_at R 0 1) * y))"
    using roll_pitch_controller_init [of thrust_cmd euler2RM attitude acceleration_cmd] t r res
    by (simp add: Let_def R_def x_def y_def)
  then have p: "p = 1 / mat_at R 2 2 * (mat_at R 1 0 * x + (- mat_at R 0 0) * y)"
    and q: "q = 1 / mat_at R 2 2 * (mat_at R 1 1 * x + (- mat_at R 0 1) * y)"
    by simp_all
  show ?thesis
    unfolding p q
    using mixed_rate_bound [OF r' rotation_rows_bounded(4) [OF rot'] rotation_rows_bounded(1) [OF rot'] x y]
      mixed_rate_bound [OF r' rotation_rows_bounded(5) [OF rot'] rotation_rows_bounded(2) [OF rot'] x y]
    by simp
qed

text \<open>
  Claim C10. The rate commands of \<open>roll_pitch_controller\<close> are never clamped: in the
  non-degenerate case the product of the mixing matrix with the tilt rates, scaled by
  \<open>1 / R[2,2]\<close>, is returned as it is. They are not unbounded, though: for a rotation
  matrix \<open>R\<close> every entry is at most 1 in magnitude, the tilt targets are clamped to
  \<open>MAX_TILT\<close> and \<open>|R[2,2]| > EPSILON\<close>, so each rate is at most
  \<open>2 * 8 * (MAX_TILT + 1) / EPSILON = 320000\<close> in magnitude.
\<close>

theorem roll_pitch_rate_unclamped:
  assumes "\<bar>thrust_cmd\<bar> > EPSILON"
    and "\<bar>mat_at (euler2RM (at3 attitude 0) (at3 attitude 1) (at3 attitude 2)) 2 2\<bar> > EPSILON"
  shows
    "\<exists>p q.
       roll_pitch_controller euler2RM init acceleration_cmd attitude thrust_cmd = Some (p, q) \<and>
       (let R = euler2RM (at3 attitude 0) (at3 attitude 1) (at3 attitude 2);
            b_c_x = np_clip (at2 acceleration_cmd 0 / (- thrust_cmd / DRONE_MASS_KG))
                      (- MAX_TILT) MAX_TILT;
            b_c_y = np_clip (at2 acceleration_cmd 1 / (- thrust_cmd / DRONE_MASS_KG))
                      (- MAX_TILT) MAX_TILT;
            M = ((mat_at R 1 0, - mat_at R 0 0), (mat_at R 1 1, - mat_at R 0 1));
            b_c_dot = (8 * (b_c_x - mat_at R 0 2), 8 * (b_c_y - mat_at R 1 2))
        in (p, q) = smul2 (1 / mat_at R 2 2) (matmul2 M b_c_dot) \<and>
           (rotation_matrix R \<longrightarrow> \<bar>p\<bar> \<le> 320000 \<and> \<bar>q\<bar> \<le> 320000))"
proof -
  obtain p q where pq:
    "roll_pitch_controller euler2RM init acceleration_cmd attitude thrust_cmd = Some (p, q)"
    using roll_pitch_controller_init [of thrust_cmd euler2RM attitude acceleration_cmd] assms
    by (simp add: Let_def)
  have raw: "(p, q) =
      smul2 (1 / mat_at (euler2RM (at3 attitude 0) (at3 attitude 1) (at3 attitude 2)) 2 2)
        (matmul2
          ((mat_at (euler2RM (at3 attitude 0) (at3 attitude 1) (at3 attitude 2)) 1 0,
            - mat_at (euler2RM (at3 attitude 0) (at3 attitude 1) (at3 attitude 2)) 0 0),
           (mat_at (euler2RM (at3 attitude 0) (at3 attitude 1) (at3 attitude 2)) 1 1,
            - mat_at (euler2RM (at3 attitude 0) (at3 attitude 1) (at3 attitude 2)) 0 1))
          (8 * (np_clip (at2 acceleration_cmd 0 / (- thrust_cmd / DRONE_MASS_KG))
                  (- MAX_TILT) MAX_TILT
                - mat_at (euler2RM (at3 attitude 0) (at3 attitude 1) (at3 attitude 2)) 0 2),
           8 * (np_clip (at2 acceleration_cmd 1 / (- thrust_cmd / DRONE_MASS_KG))
                  (- MAX_TILT) MAX_TILT
                - mat_at (euler2RM (at3 attitude 0) (at3 attitude 1) (at3 attitude 2)) 1 2)))"
    using roll_pitch_controller_init [of thrust_cmd euler2RM attitude acceleration_cmd] assms pq
    by (simp add: Let_def smul2_def matmul2_def PController_def)
  have "rotation_matrix (euler2RM (at3 attitude 0) (at3 attitude 1) (at3 attitude 2))
      \<longrightarrow> \<bar>p\<bar> \<le> 320000 \<and> \<bar>q\<bar> \<le> 320000"
    using roll_pitch_rate_bound [of thrust_cmd euler2RM attitude acceleration_cmd p q] assms pq
    by blast
  with pq raw show ?thesis
    unfolding Let_def by blast
qed

text \<open>
  Level attitude, thrust 1 N, commanded acceleration \<open>(-2, -2)\<close>: the rates are
  \<open>(-8, 8)\<close>. Rolled until \<open>R[2,2] = 201 / 20201\<close>, about 0.01, with the second tilt
  target clamped to 1: the roll rate is \<open>-1608\<close>. Both lie within 320000 and neither
  is cut to any smaller bound.
\<close>

theorem roll_pitch_rate_unclamped_witness:
  "\<bar>1::real\<bar> > EPSILON \<and> \<bar>mat_at ((1, 0, 0), (0, 1, 0), (0, 0, 1)) 2 2\<bar> > EPSILON \<and>
   rotation_matrix ((1, 0, 0), (0, 1, 0), (0, 0, 1)) \<and>
   roll_pitch_controller (\<lambda>roll pitch yaw. ((1, 0, 0), (0, 1, 0), (0, 0, 1))) init
     (- 2, - 2) (0, 0, 0) 1 = Some (- 8, 8) \<and>
   rotation_matrix ((1, 0, 0), (0, 201 / 20201, - (20200 / 20201)), (0, 20200 / 20201, 201 / 20201)) \<and>
   roll_pitch_controller
     (\<lambda>roll pitch yaw.
        ((1, 0, 0), (0, 201 / 20201, - (20200 / 20201)), (0, 20200 / 20201, 201 / 20201)))
     init (0, - 1000) (arccos (201 / 20201), 0, 0) 1 = Some (- 1608, 0)"
proof -
  have level: "roll_pitch_controller (\<lambda>roll pitch yaw. ((1, 0, 0), (0, 1, 0), (0, 0, 1))) init
     (- 2, - 2) (0, 0, 0) 1 = Some (- 8, 8)"
    using roll_pitch_rate_unclamped
      [of 1 "\<lambda>roll pitch yaw. ((1, 0, 0), (0, 1, 0), (0, 0, 1))" "(0, 0, 0)" "(- 2, - 2)"]
    by (simp add: mat_at_def mat_row_def at3_def at2_def EPSILON_def Let_def np_clip_def
        DRONE_MASS_KG_def MAX_TILT_def matmul2_def smul2_def)
  have steep: "roll_pitch_controller
     (\<lambda>roll pitch yaw.
        ((1, 0, 0), (0, 201 / 20201, - (20200 / 20201)), (0, 20200 / 20201, 201 / 20201)))
     init (0, - 1000) (arccos (201 / 20201), 0, 0) 1 = Some (- 1608, 0)"
    using roll_pitch_rate_unclamped
      [of 1 "\<lambda>roll pitch yaw.
        ((1, 0, 0), (0, 201 / 20201, - (20200 / 20201)), (0, 20200 / 20201, 201 / 20201))"
        "(arccos (201 / 20201), 0, 0)" "(0, - 1000)"]
    by (simp add: mat_at_def mat_row_def at3_def at2_def EPSILON_def Let_def np_clip_def
        DRONE_MASS_KG_def MAX_TILT_def matmul2_def smul2_def)
  have rot: "rotation_matrix ((1, 0, 0), (0, 1, 0), (0, 0, 1))"
    "rotation_matrix
       ((1, 0, 0), (0, 201 / 20201, - (20200 / 20201)), (0, 20200 / 20201, 201 / 20201))"
    by (simp_all add: rotation_matrix_def row_dot_def det3_def mat_at_def mat_row_def at3_def)
  have guards: "\<bar>1::real\<bar> > EPSILON" "\<bar>mat_at ((1, 0, 0), (0, 1, 0), (0, 0, 1)) 2 2\<bar> > EPSILON"
    by (simp_all add: mat_at_def mat_row_def at3_def EPSILON_def)
  from level steep rot guards show ?thesis by simp
qed

text \<open>
  The claim as stated, that for any bound \<open>B\<close> some input with both guards passed gives
  a rate above \<open>B\<close>, fails for \<open>B = 320000\<close>.
\<close>

theorem roll_pitch_rate_unbounded_counterexample:
  "\<not> (\<forall>B. \<exists>euler2RM acceleration_cmd attitude thrust_cmd p q.
        rotation_matrix (euler2RM (at3 attitude 0) (at3 attitude 1) (at3 attitude 2)) \<and>
        \<bar>thrust_cmd\<bar> > EPSILON \<and>
        \<bar>mat_at (euler2RM (at3 attitude 0) (at3 attitude 1) (at3 attitude 2)) 2 2\<bar> > EPSILON \<and>
        roll_pitch_controller euler2RM init acceleration_cmd attitude thrust_cmd = Some (p, q) \<and>
        (\<bar>p\<bar> > B \<or> \<bar>q\<bar> > B))"
proof
  assume "\<forall>B. \<exists>euler2RM acceleration_cmd attitude thrust_cmd p q.
        rotation_matrix (euler2RM (at3 attitude 0) (at3 attitude 1) (at3 attitude 2)) \<and>
        \<bar>thrust_cmd\<bar> > EPSILON \<and>
        \<bar>mat_at (euler2RM (at3 attitude 0) (at3 attitude 1) (at3 attitude 2)) 2 2\<bar> > EPSILON \<and>
        roll_pitch_controller euler2RM init acceleration_cmd attitude thrust_cmd = Some (p, q) \<and>
        (\<bar>p\<bar> > B \<or> \<bar>q\<bar> > B)"
  then obtain euler2RM acceleration_cmd attitude thrust_cmd p q where
    h: "rotation_matrix (euler2RM (at3 attitude 0) (at3 attitude 1) (at3 attitude 2))"
      "\<bar>thrust_cmd\<bar> > EPSILON"
      "\<bar>mat_at (euler2RM (at3 attitude 0) (at3 attitude 1) (at3 attitude 2)) 2 2\<bar> > EPSILON"
      "roll_pitch_controller euler2RM init acceleration_cmd attitude thrust_cmd = Some (p, q)"
      "\<bar>p\<bar> > 320000 \<or> \<bar>q\<bar> > 320000"
    by blast
  from roll_pitch_rate_bound [of thrust_cmd euler2RM attitude acceleration_cmd p q] h
  show False by linarith
qed

section \<open>The body-rate stage\<close>

text \<open>
  Claim C4. For every commanded and measured body rate, however large the rate error,
  each of the three moments returned by \<open>body_rate_control\<close> lies in
  \<open>[-MAX_TORQUE, MAX_TORQUE]\<close>.
\<close>

theorem body_rate_control_clamped:
  "- MAX_TORQUE \<le> at3 (body_rate_control self body_rate_cmd body_rate) 0 \<and>
   at3 (body_rate_control self body_rate_cmd body_rate) 0 \<le> MAX_TORQUE \<and>
   - MAX_TORQUE \<le> at3 (body_rate_control self body_rate_cmd body_rate) 1 \<and>
   at3 (body_rate_control self body_rate_cmd body_rate) 1 \<le> MAX_TORQUE \<and>
   - MAX_TORQUE \<le> at3 (body_rate_control self body_rate_cmd body_rate) 2 \<and>
   at3 (body_rate_control self body_rate_cmd body_rate) 2 \<le> MAX_TORQUE"
proof -
  have le: "- MAX_TORQUE \<le> MAX_TORQUE"
    by (simp add: MAX_TORQUE_def)
  show ?thesis
    using np_clip_bounds [OF le]
    by (simp add: body_rate_control_def Let_def at3_def [of "(a, b, c)" for a b c])
qed

section \<open>Zero tracking error\<close>

text \<open>
  Claim C9. With every commanded quantity equal to the actual one and zero
  feed-forward, every stage returns exactly zero: \<open>lateral_position_control\<close> returns
  \<open>(0, 0)\<close>, \<open>altitude_control\<close> thrust 0, \<open>body_rate_control\<close> \<open>(0, 0, 0)\<close>,
  \<open>yaw_control\<close> 0, and \<open>roll_pitch_controller\<close> \<open>(0, 0)\<close> when its tilt error
  \<open>b_c - b_a\<close> is zero.
\<close>

theorem zero_error_zero_output:
  "lateral_position_control self local_position local_velocity local_position local_velocity
     (0, 0) = (0, 0) \<and>
   altitude_control euler2RM self altitude vertical_velocity altitude vertical_velocity
     attitude 0 = Some 0 \<and>
   body_rate_control self body_rate body_rate = (0, 0, 0) \<and>
   yaw_control self yaw yaw = 0 \<and>
   (let R = euler2RM (at3 attitude 0) (at3 attitude 1) (at3 attitude 2);
        b_c_x = np_clip (at2 acceleration_cmd 0 / (- thrust_cmd / DRONE_MASS_KG))
                  (- MAX_TILT) MAX_TILT;
        b_c_y = np_clip (at2 acceleration_cmd 1 / (- thrust_cmd / DRONE_MASS_KG))
                  (- MAX_TILT) MAX_TILT
    in b_c_x - mat_at R 0 2 = 0 \<and> b_c_y - mat_at R 1 2 = 0 \<longrightarrow>
       roll_pitch_controller euler2RM self acceleration_cmd attitude thrust_cmd = Some (0, 0))"
proof -
  have lat: "lateral_position_control self local_position local_velocity local_position
      local_velocity (0, 0) = (0, 0)"
    by (simp add: lateral_position_control_def control_def at2_def)
  have alt: "altitude_control euler2RM self altitude vertical_velocity altitude vertical_velocity
      attitude 0 = Some 0"
    by (simp add: altitude_control_def Let_def control_def np_div_def np_clip_def MAX_THRUST_def
        EPSILON_def)
  have rate: "body_rate_control self body_rate body_rate = (0, 0, 0)"
    by (simp add: body_rate_control_def control_P_def control_def np_clip_def MAX_TORQUE_def)
  have "normalize_angle 0 = 0"
    by (rule normalize_angle_fixed) simp_all
  then have yaw: "yaw_control self yaw yaw = 0"
    by (simp add: yaw_control_def control_P_def control_def)
  have eps: "0 < EPSILON" by (simp add: EPSILON_def)
  have rp: "np_clip (at2 acceleration_cmd 0 / (- thrust_cmd / DRONE_MASS_KG)) (- MAX_TILT) MAX_TILT
        - mat_at (euler2RM (at3 attitude 0) (at3 attitude 1) (at3 attitude 2)) 0 2 = 0 \<and>
      np_clip (at2 acceleration_cmd 1 / (- thrust_cmd / DRONE_MASS_KG)) (- MAX_TILT) MAX_TILT
        - mat_at (euler2RM (at3 attitude 0) (at3 attitude 1) (at3 attitude 2)) 1 2 = 0 \<longrightarrow>
      roll_pitch_controller euler2RM self acceleration_cmd attitude thrust_cmd = Some (0, 0)"
  proof
    assume z: "np_clip (at2 acceleration_cmd 0 / (- thrust_cmd / DRONE_MASS_KG)) (- MAX_TILT) MAX_TILT
        - mat_at (euler2RM (at3 attitude 0) (at3 attitude 1) (at3 attitude 2)) 0 2 = 0 \<and>
      np_clip (at2 acceleration_cmd 1 / (- thrust_cmd / DRONE_MASS_KG)) (- MAX_TILT) MAX_TILT
        - mat_at (euler2RM (at3 attitude 0) (at3 attitude 1) (at3 attitude 2)) 1 2 = 0"
    show "roll_pitch_controller euler2RM self acceleration_cmd attitude thrust_cmd = Some (0, 0)"
    proof (cases "\<bar>thrust_cmd\<bar> > EPSILON \<and>
        \<bar>mat_at (euler2RM (at3 attitude 0) (at3 attitude 1) (at3 attitude 2)) 2 2\<bar> > EPSILON")
      case True
      then have "- thrust_cmd / DRONE_MASS_KG \<noteq> 0"
        and "mat_at (euler2RM (at3 attitude 0) (at3 attitude 1) (at3 attitude 2)) 2 2 \<noteq> 0"
        using eps by (auto simp add: DRONE_MASS_KG_def)
      with True z show ?thesis
        by (simp add: roll_pitch_controller_def Let_def np_div_def control_P_def control_def
            matmul2_def smul2_def)
    next
      case False
      then show ?thesis
        by (auto simp add: roll_pitch_controller_def Let_def)
    qed
  qed
  from lat alt rate yaw rp show ?thesis
    unfolding Let_def by blast
qed

text \<open>Level attitude, no commanded acceleration, and equal commands and measurements.\<close>

theorem zero_error_zero_output_witness:
  "np_clip (at2 (0, 0) 0 / (- 1 / DRONE_MASS_KG)) (- MAX_TILT) MAX_TILT
     - mat_at ((1, 0, 0), (0, 1, 0), (0, 0, 1)) 0 2 = 0 \<and>
   np_clip (at2 (0, 0) 1 / (- 1 / DRONE_MASS_KG)) (- MAX_TILT) MAX_TILT
     - mat_at ((1, 0, 0), (0, 1, 0), (0, 0, 1)) 1 2 = 0 \<and>
   roll_pitch_controller (\<lambda>roll pitch yaw. ((1, 0, 0), (0, 1, 0), (0, 0, 1))) init
     (0, 0) (0, 0, 0) 1 = Some (0, 0) \<and>
   lateral_position_control init (1, 2) (3, 4) (1, 2) (3, 4) (0, 0) = (0, 0) \<and>
   altitude_control (\<lambda>roll pitch yaw. ((1, 0, 0), (0, 1, 0), (0, 0, 1))) init 5 1 5 1 (0, 0, 0) 0
     = Some 0 \<and>
   body_rate_control init (1, 2, 3) (1, 2, 3) = (0, 0, 0) \<and>
   yaw_control init 1 1 = 0"
  using zero_error_zero_output
    [of init "(1, 2)" "(3, 4)" "\<lambda>roll pitch yaw. ((1, 0, 0), (0, 1, 0), (0, 0, 1))" 5 1
      "(0, 0, 0)" "(1, 2, 3)" 1 "(0, 0)" 1]
  by (simp add: mat_at_def mat_row_def at3_def at2_def np_clip_def MAX_TILT_def DRONE_MASS_KG_def
      Let_def)

section \<open>The trajectory sampler\<close>

subsection \<open>Before the first waypoint\<close>

text \<open>
  Claim C2. For strictly increasing timestamps and a current time before the first
  one, the sampler is to hold the first waypoint's position. The code does not: it
  takes the branch for a time before the nearest sample and decrements that sample's
  index 0, and index \<open>-1\<close> is the last sample. With waypoints \<open>(t = 1, (0, 0, 0))\<close> and
  \<open>(t = 3, (2, 0, 0))\<close> the sampler at time 0 returns the position \<open>(-1, 0, 0)\<close>, on
  the line through the last and the first waypoint, and the yaw of the last sample;
  with a single waypoint it divides by zero. Past the end of the trajectory the code
  has a branch of its own that holds the last waypoint.
\<close>

theorem trajectory_before_start_wraps:
  "trajectory_control init [(0, 0, 0), (2, 0, 0)] [0.1, 0.2] [1, 3] 0 =
     Inr (Some (- 1, 0, 0), Some (1, 0, 0), 0.2) \<and>
   trajectory_control init [(1, 2, 3)] [0.1] [1] 0 = Inr (None, None, 0.1)"
  by (simp add: trajectory_control_def np_argmin_def bindE_def py_index_def Let_def
      interpolate_def vdiv_def vscale_def vsub_def vadd_def)

section \<open>Binary64: the rounding\<close>

text \<open>\<^const>\<open>ilog2\<close> is the position of the highest set bit, so \<^const>\<open>exponent\<close> is the
  binary exponent of a magnitude in the normal range and the least exponent \<open>- 1022\<close> below
  it; \<^const>\<open>round_mag\<close> then moves a magnitude by at most half a unit in the last place.\<close>

lemma ilog2_bounds: "0 < n \<Longrightarrow> 2 ^ ilog2 n \<le> n \<and> n < 2 ^ Suc (ilog2 n)"
proof (induction n rule: ilog2.induct)
  case (1 n)
  show ?case
  proof (cases "n < 2")
    case True
    with "1.prems" have "n = 1" by simp
    then show ?thesis by (simp add: ilog2.simps)
  next
    case ge2: False
    show ?thesis
    proof (cases "n < 18446744073709551616")
      case True
      have pos: "0 < n div 2" using ge2 by simp
      from "1.IH"(1) [OF ge2 True pos]
      have ih: "2 ^ ilog2 (n div 2) \<le> n div 2" "n div 2 < 2 ^ Suc (ilog2 (n div 2))"
        by simp_all
      have eq: "ilog2 n = Suc (ilog2 (n div 2))"
        using ge2 True by (subst ilog2.simps) simp
      from ih(1) have "2 * 2 ^ ilog2 (n div 2) \<le> n" by simp
      moreover from ih(2) have "n < 2 * 2 ^ Suc (ilog2 (n div 2))" by simp
      ultimately show ?thesis by (simp add: eq)
    next
      case False
      have pos: "0 < n div 18446744073709551616" using False by (simp add: div_greater_zero_iff)
      from "1.IH"(2) [OF ge2 False pos]
      have ih: "2 ^ ilog2 (n div 18446744073709551616) \<le> n div 18446744073709551616"
        "n div 18446744073709551616 < 2 ^ Suc (ilog2 (n div 18446744073709551616))"
        by simp_all
      have eq: "ilog2 n = 64 + ilog2 (n div 18446744073709551616)"
        using ge2 False by (subst ilog2.simps) simp
      have c: "(18446744073709551616::nat) = 2 ^ 64" by simp
      from ih(1) have "2 ^ 64 * 2 ^ ilog2 (n div 2 ^ 64) \<le> 2 ^ 64 * (n div 2 ^ 64)"
        unfolding c by (rule mult_le_mono2)
      also have "\<dots> \<le> n" by simp
      finally have lo: "2 ^ (64 + ilog2 (n div 2 ^ 64)) \<le> n" by (simp add: power_add)
      from ih(2) have "Suc (n div 2 ^ 64) \<le> 2 ^ Suc (ilog2 (n div 2 ^ 64))"
        unfolding c by simp
      then have "2 ^ 64 * Suc (n div 2 ^ 64) \<le> 2 ^ 64 * 2 ^ Suc (ilog2 (n div 2 ^ 64))"
        by (rule mult_le_mono2)
      moreover have "n < 2 ^ 64 * Suc (n div 2 ^ 64)"
        using dividend_less_times_div [of "2 ^ 64" n] by simp
      ultimately have hi: "n < 2 ^ Suc (64 + ilog2 (n div 2 ^ 64))" by (simp add: power_add)
      from lo hi show ?thesis unfolding eq c by simp
    qed
  qed
qed

lemma pow2_powr: "pow2 k = 2 powr (of_int k)"
  by (simp add: pow2_def powr_real_of_int inverse_eq_divide)

lemma pow2_pos: "0 < pow2 k"
  by (simp add: pow2_powr)

lemma pow2_less_iff: "pow2 a < pow2 b \<longleftrightarrow> a < b"
  by (simp add: pow2_powr)

lemma pow2_le_iff: "pow2 a \<le> pow2 b \<longleftrightarrow> a \<le> b"
  by (simp add: pow2_powr)

lemma pow2_add: "pow2 (a + b) = pow2 a * pow2 b"
  by (simp add: pow2_powr powr_add)

lemma pow2_nat: "pow2 (int n) = 2 ^ n"
  by (simp add: pow2_def)

lemma pow2_neg_nat: "pow2 (- int n) = 1 / 2 ^ n"
  by (simp add: pow2_powr powr_minus powr_realpow divide_inverse)

lemma exponent_bounds:
  assumes m: "pow2 (- 1022) \<le> m"
  shows "pow2 (exponent m) \<le> m \<and> m < pow2 (exponent m + 1)"
proof (cases "1 \<le> m")
  case True
  let ?n = "nat \<lfloor>m\<rfloor>"
  have n: "0 < ?n" using True by simp
  from ilog2_bounds [OF n] have b: "2 ^ ilog2 ?n \<le> ?n" "?n < 2 ^ Suc (ilog2 ?n)" by simp_all
  have e: "exponent m = int (ilog2 ?n)" using True by (simp add: exponent_def)
  have "real ?n \<le> m" using True by simp
  moreover have "real (2 ^ ilog2 ?n) \<le> real ?n" using b(1) by (rule of_nat_mono)
  moreover have "real (2 ^ ilog2 ?n) = 2 ^ ilog2 ?n" by simp
  ultimately have lo: "2 ^ ilog2 ?n \<le> m" by linarith
  have "m < real ?n + 1" using True by (simp; linarith?)
  moreover have "real (Suc ?n) \<le> real (2 ^ Suc (ilog2 ?n))"
    using b(2) by (intro of_nat_mono) simp
  moreover have "real (2 ^ Suc (ilog2 ?n)) = 2 ^ Suc (ilog2 ?n)" by simp
  moreover have "real (Suc ?n) = real ?n + 1" by simp
  ultimately have hi: "m < 2 ^ Suc (ilog2 ?n)" by linarith
  have "exponent m + 1 = int (Suc (ilog2 ?n))" using e by simp
  then show ?thesis using lo hi e by (simp only: pow2_nat)
next
  case False
  have mpos: "0 < m" using m pow2_pos [of "- 1022"] by linarith
  let ?c = "nat \<lceil>1 / m\<rceil>"
  let ?j = "ilog2 (?c - 1)"
  have inv: "1 < 1 / m" using False mpos by simp
  then have c2: "2 \<le> ?c" by (simp add: le_nat_iff; linarith?)
  then have c1: "0 < ?c - 1" by linarith
  from ilog2_bounds [OF c1] have b: "2 ^ ?j \<le> ?c - 1" "?c - 1 < 2 ^ Suc ?j" by simp_all
  have cle: "?c \<le> 2 ^ Suc ?j" using b(2) c2 by linarith
  have "1 / m \<le> real ?c" using inv by (simp add: of_nat_nat; linarith?)
  also have "\<dots> \<le> real (2 ^ Suc ?j)" using cle by (rule of_nat_mono)
  finally have "1 / m \<le> 2 ^ Suc ?j" by simp
  then have lo: "1 / 2 ^ Suc ?j \<le> m" using mpos
    by (simp add: field_simps)
  have "real (?c - 1) < 1 / m" using c2 inv by (simp add: of_nat_diff; linarith?)
  moreover have "real (2 ^ ?j) \<le> real (?c - 1)" using b(1) by (rule of_nat_mono)
  moreover have "real (2 ^ ?j) = 2 ^ ?j" by simp
  ultimately have "2 ^ ?j < 1 / m" by linarith
  then have hi: "m < 1 / 2 ^ ?j" using mpos
    by (simp add: field_simps)
  have lo': "pow2 (- int (Suc ?j)) \<le> m" using lo by (simp only: pow2_neg_nat)
  have hi': "m < pow2 (- int ?j)" using hi by (simp only: pow2_neg_nat)
  from m hi' have "pow2 (- 1022) < pow2 (- int ?j)" by linarith
  then have "- 1022 < - int ?j" by (simp only: pow2_less_iff)
  then have e: "exponent m = - int (Suc ?j)"
    using False by (simp add: exponent_def)
  have "exponent m + 1 = - int ?j" using e by simp
  with lo' hi' e show ?thesis by simp
qed

lemma exponent_subnormal:
  assumes "0 < m" and "m < pow2 (- 1022)"
  shows "exponent m = - 1022"
proof -
  have "pow2 (- 1022) \<le> 1" by (simp add: pow2_def)
  with assms have False: "\<not> 1 \<le> m" by linarith
  let ?c = "nat \<lceil>1 / m\<rceil>"
  let ?j = "ilog2 (?c - 1)"
  have inv: "1 < 1 / m" using False assms(1) by simp
  then have c2: "2 \<le> ?c" by (simp add: le_nat_iff; linarith?)
  then have c1: "0 < ?c - 1" by linarith
  from ilog2_bounds [OF c1] have b: "?c - 1 < 2 ^ Suc ?j" by simp
  then have cle: "?c \<le> 2 ^ Suc ?j" using c2 by linarith
  have "1 / m \<le> real ?c" using inv by (simp add: of_nat_nat; linarith?)
  also have "\<dots> \<le> real (2 ^ Suc ?j)" using cle by (rule of_nat_mono)
  finally have "1 / m \<le> 2 ^ Suc ?j" by simp
  then have "1 / 2 ^ Suc ?j \<le> m" using assms(1)
    by (simp add: field_simps)
  then have "pow2 (- int (Suc ?j)) \<le> m" by (simp only: pow2_neg_nat)
  with assms(2) have "pow2 (- int (Suc ?j)) < pow2 (- 1022)" by linarith
  then have "- int (Suc ?j) < - 1022" by (simp only: pow2_less_iff)
  then show ?thesis using False by (simp add: exponent_def)
qed

lemma round_even_nearest: "\<bar>of_int (round_even q) - q\<bar> \<le> 1 / 2"
proof -
  have "of_int \<lfloor>q\<rfloor> \<le> q" "q < of_int \<lfloor>q\<rfloor> + 1" by linarith+
  then show ?thesis by (auto simp add: round_even_def Let_def)
qed

lemma round_even_int: "round_even (of_int k) = k"
  by (simp add: round_even_def)

lemma round_mag_nearest:
  assumes "round_mag m = Some r" and "0 < m"
  shows "\<bar>r - m\<bar> \<le> pow2 (exponent m - 52) / 2"
proof -
  let ?u = "pow2 (exponent m - 52)"
  have u: "0 < ?u" by (rule pow2_pos)
  from assms have r: "r = of_int (round_even (m / ?u)) * ?u"
    by (auto simp add: round_mag_def Let_def split: if_splits)
  have "\<bar>of_int (round_even (m / ?u)) - m / ?u\<bar> * ?u \<le> 1 / 2 * ?u"
    using round_even_nearest [of "m / ?u"] u by (intro mult_right_mono) simp_all
  moreover have "\<bar>of_int (round_even (m / ?u)) - m / ?u\<bar> * ?u = \<bar>r - m\<bar>"
  proof -
    have "\<bar>of_int (round_even (m / ?u)) - m / ?u\<bar> * ?u = \<bar>(of_int (round_even (m / ?u)) - m / ?u) * ?u\<bar>"
      using u by (simp add: abs_mult)
    also have "(of_int (round_even (m / ?u)) - m / ?u) * ?u = r - m"
      using u by (simp add: r left_diff_distrib)
    finally show ?thesis .
  qed
  ultimately show ?thesis by simp
qed

section \<open>Binary64: evaluation and basic facts\<close>

lemmas f64_eval = lit_def round64_def round_mag_def exponent_def round_even_def pow2_def
  sval_def fsub_def fle_def fgt_def fge_def Let_def ilog2.simps

lemma small_lits:
  "lit 0 = Fin False 0" "lit 1 = Fin False 1" "lit 2 = Fin False 2" "lit 4 = Fin False 4"
  "lit 8 = Fin False 8" "lit 10 = Fin False 10" "lit (1 / 2) = Fin False (1 / 2)"
  by (simp_all add: f64_eval)

lemma round64_zero: "round64 s 0 = Fin s 0"
  by (simp add: round64_def round_mag_def)

lemma fmul_nan: "fmul x NaN = NaN" "fmul NaN y = NaN"
  by (cases x) simp_all

lemma fadd_nan: "fadd x NaN = NaN" "fadd NaN y = NaN"
  by (cases x) simp_all

lemma fdiv_nan: "fdiv x NaN = NaN" "fdiv NaN y = NaN"
  by (cases x) simp_all

lemma fgt_not_nan: "fgt y z \<Longrightarrow> \<not> is_nan y"
  by (cases y; cases z) (simp_all add: fgt_def)

lemma fgt_not_fge: "fgt y z \<Longrightarrow> \<not> fge z y"
  by (cases y; cases z) (auto simp add: fgt_def fge_def fle_def)

lemma fle_not_flt: "fle x y \<Longrightarrow> \<not> flt y x"
  by (cases x; cases y) (auto simp add: fle_def)

lemma fsub_self: "finite64 a \<Longrightarrow> fsub a a = Fin False 0"
  by (cases a) (simp_all add: finite64_def fsub_def sval_def)

lemma fsub_zero: "finite64 x \<Longrightarrow> fsub x (lit 0) = x"
  by (cases x) (auto simp add: finite64_def fsub_def sval_def small_lits round64_def)

lemma one_minus_zero: "fsub (lit 1) (lit 0) = Fin False 1"
  by (simp add: f64_eval)

lemma zero_times_finite: "finite64 x \<Longrightarrow> \<exists>s. fmul (Fin False 0) x = Fin s 0"
  by (cases x) (simp_all add: finite64_def round64_def round_mag_def)

lemma zero_plus_finite: "finite64 a \<Longrightarrow> feq (fadd (Fin s 0) a) a"
  by (cases a) (auto simp add: finite64_def sval_def round64_def)

text \<open>The double \<open>1e308\<close>: eight times it overflows, and so does twice it.\<close>

lemma huge64_finite: "finite64 huge64" "finite64 (fneg huge64)"
  by (simp_all add: huge64_def finite64_def f64_eval)

lemma huge64_times: "fmul (lit 8) huge64 = Inf False" "fmul (lit 4) (fneg huge64) = Inf True"
  by (simp_all add: huge64_def f64_eval)


lemma np_pi_value: "np_pi = Fin False (884279719003555 / 281474976710656)"
  by (simp add: np_pi_def f64_eval)

lemma two_np_pi: "fmul (lit 2) np_pi = Fin False (884279719003555 / 140737488355328)"
  by (simp add: np_pi_value f64_eval)

section \<open>The altitude stage in binary64\<close>

text \<open>
  Claim C1. For every finite input the thrust of \<open>altitude_control\<close> is to lie in
  \<open>[0, MAX_THRUST]\<close> and never to be nan. The code does not keep this: level, with the
  finite inputs \<open>altitude_cmd = 1e308\<close> and \<open>vertical_velocity_cmd = -1e308\<close>, the PD
  law adds \<open>8.0 * 1e308 = inf\<close> and \<open>4.0 * (-1e308) = -inf\<close>, the sum is nan, and
  \<open>np.clip\<close> returns a nan as it is.
\<close>

theorem altitude_control_overflow_nan:
  "altitude_control64
     (\<lambda>roll pitch yaw. ((lit 1, lit 0, lit 0), (lit 0, lit 1, lit 0), (lit 0, lit 0, lit 1)))
     init64 (lit (10 ^ 308)) (fneg (lit (10 ^ 308))) (lit 0.0) (lit 0.0)
     (lit 0, lit 0, lit 0) (lit 0.0) = NaN"
proof -
  have guard: "fgt (fabs (lit 1)) EPSILON64"
    by (simp add: EPSILON64_def f64_eval)
  have pd: "control64 (altitude_controller64 init64)
      (fsub huge64 (lit 0)) (fsub (fneg huge64) (lit 0)) (lit 0) = NaN"
    by (simp add: control64_def init64_def fsub_zero [OF huge64_finite(1)]
        fsub_zero [OF huge64_finite(2)] huge64_times fadd_nan)
  show ?thesis
    unfolding huge64_def [symmetric]
    using guard
    by (simp add: altitude_control64_def Let_def mat_atf_def at3f_def np_clip64_def pd
        fmul_nan fdiv_nan)
qed

section \<open>The yaw stage in binary64\<close>

text \<open>
  Claim C6. \<open>normalize_angle\<close> is to be idempotent with results in \<open>[-pi, pi)\<close>. The code
  does not keep this at the double next below \<open>-np.pi\<close>: \<open>x + np.pi\<close> is
  \<open>-4.44e-16\<close>, the remainder modulo \<open>2 * np.pi\<close> adds \<open>2 * np.pi\<close> to it, and that sum
  rounds to \<open>2 * np.pi\<close> itself. The result is \<open>+np.pi\<close>, which is not below
  \<open>np.pi\<close>, and a second application gives \<open>-np.pi\<close>. With \<open>yaw_cmd = 0.0\<close> and
  \<open>yaw = 3.1415926535897936\<close> the yaw stage commands the rate \<open>5.5 * np.pi\<close>.
\<close>

theorem normalize_angle_boundary:
  "normalize_angle64 (lit (- 3.1415926535897936)) = np_pi \<and>
   \<not> flt (normalize_angle64 (lit (- 3.1415926535897936))) np_pi \<and>
   normalize_angle64 (normalize_angle64 (lit (- 3.1415926535897936))) = fneg np_pi \<and>
   yaw_control64 init64 (lit 0.0) (lit 3.1415926535897936) = lit 17.27875959474386"
proof -
  have first: "normalize_angle64 (lit (- 3.1415926535897936)) = np_pi"
    unfolding normalize_angle64_def two_np_pi [simplified]
    by (simp add: two_np_pi np_pi_value f64_eval)
  have second: "normalize_angle64 np_pi = fneg np_pi"
    unfolding normalize_angle64_def
    by (simp add: two_np_pi np_pi_value f64_eval)
  have not_below: "\<not> flt np_pi np_pi"
    by (simp add: np_pi_value)
  have yaw: "yaw_control64 init64 (lit 0.0) (lit 3.1415926535897936) = lit 17.27875959474386"
    unfolding yaw_control64_def normalize_angle64_def
    by (simp add: two_np_pi np_pi_value f64_eval init64_def PController64_def control_P64_def
        control64_def)
  from first second not_below yaw show ?thesis by simp
qed

section \<open>The trajectory sampler in binary64\<close>

subsection \<open>The nearest sample when it is the last one\<close>

lemma argmin64_loop_last:
  assumes "\<forall>y \<in> set (mp # ys). fgt y z"
  shows "argmin64_loop (ys @ [z]) i min_ind mp = i + length ys"
  using assms
proof (induction ys arbitrary: i min_ind mp)
  case Nil
  then show ?case by (simp add: fgt_not_nan fgt_not_fge)
next
  case (Cons y ys)
  from Cons.prems have "fgt mp z" by simp
  then have mp: "\<not> is_nan mp" by (rule fgt_not_nan)
  show ?case
  proof (cases "fge y mp")
    case True
    have "argmin64_loop (ys @ [z]) (Suc i) min_ind mp = Suc i + length ys"
      by (rule Cons.IH) (use Cons.prems in simp)
    with mp True show ?thesis by simp
  next
    case False
    have "argmin64_loop (ys @ [z]) (Suc i) i y = Suc i + length ys"
      by (rule Cons.IH) (use Cons.prems in simp)
    with mp False show ?thesis by simp
  qed
qed

lemma np_argmin64_last:
  assumes ne: "a \<noteq> []"
    and gt: "\<forall>j. Suc j < length a \<longrightarrow> fgt (a ! j) (last a)"
  shows "np_argmin64 a = Inr (length a - 1)"
proof -
  from ne obtain x xs where a: "a = x # xs" by (cases a) auto
  show ?thesis
  proof (cases xs rule: rev_cases)
    case Nil
    with a show ?thesis by (simp add: np_argmin64_def)
  next
    case (snoc ys z)
    have "\<forall>y \<in> set (x # ys). fgt y z"
    proof
      fix y assume "y \<in> set (x # ys)"
      then obtain j where j: "j < length (x # ys)" "(x # ys) ! j = y"
        unfolding in_set_conv_nth by blast
      then have "Suc j < length a" using a snoc by simp
      with gt have "fgt (a ! j) (last a)" by blast
      moreover have "a ! j = y" using j a snoc
        by (metis append_Cons nth_append)
      moreover have "last a = z" using a snoc by simp
      ultimately show "fgt y z" by simp
    qed
    from argmin64_loop_last [OF this, of 1 0]
    show ?thesis using a snoc by (simp add: np_argmin64_def)
  qed
qed

lemma py_index_last: "xs \<noteq> [] \<Longrightarrow> py_index xs (int (length xs - 1)) = Inr (last xs)"
  by (auto simp add: py_index_def last_conv_nth)

subsection \<open>The hold branch\<close>

lemma hold_component:
  assumes a: "finite64 a" and t: "finite64 current_time"
  shows "feq (fadd (fdiv (fmul (fsub a a) (fsub current_time (lit 0)))
                 (fsub (lit 1) (lit 0))) a) a \<and>
         fdiv (fsub a a) (fsub (lit 1) (lit 0)) = Fin False 0"
proof -
  from zero_times_finite [OF t] obtain s where s: "fmul (Fin False 0) current_time = Fin s 0"
    by blast
  show ?thesis
    by (simp add: fsub_self [OF a] fsub_zero [OF t] one_minus_zero s round64_zero
        zero_plus_finite [OF a])
qed

lemma interpolate64_hold:
  assumes p: "vfinite64 p" and t: "finite64 current_time"
  shows "veq64 (fst (interpolate64 p p (lit 0) (lit 1) current_time)) p \<and>
         snd (interpolate64 p p (lit 0) (lit 1) current_time) = (lit 0, lit 0, lit 0)"
proof -
  obtain a b c where abc: "p = (a, b, c)" by (cases p) auto
  with p have f: "finite64 a" "finite64 b" "finite64 c" by (simp_all add: vfinite64_def)
  show ?thesis
    using hold_component [OF f(1) t] hold_component [OF f(2) t] hold_component [OF f(3) t]
    by (simp add: abc interpolate64_def vsub64_def vscale64_def vdiv64_def vadd64_def veq64_def
        small_lits Let_def)
qed

subsection \<open>At and past the final waypoint\<close>

text \<open>
  Claim C5. For a trajectory of finite doubles whose final timestamp is, as the code
  computes the distances \<open>|t - current_time|\<close> in doubles, strictly nearer to the
  current time than every earlier timestamp, and for a finite current time at or past
  the final timestamp, \<open>trajectory_control\<close> returns the final waypoint's position and
  zero velocity: the denominator is 1.0 and nothing is divided by zero.
\<close>

theorem hold_past_final_waypoint:
  assumes ne: "time_trajectory \<noteq> []"
    and lp: "length position_trajectory = length time_trajectory"
    and ly: "length yaw_trajectory = length time_trajectory"
    and now: "finite64 current_time"
    and pos: "vfinite64 (last position_trajectory)"
    and past: "fle (last time_trajectory) current_time"
    and nearest: "\<forall>j. Suc j < length time_trajectory \<longrightarrow>
        fgt (fabs (fsub (time_trajectory ! j) current_time))
            (fabs (fsub (last time_trajectory) current_time))"
  shows "\<exists>position_cmd.
    trajectory_control64 position_trajectory yaw_trajectory time_trajectory current_time =
      Inr (position_cmd, (lit 0, lit 0, lit 0), last yaw_trajectory) \<and>
    veq64 position_cmd (last position_trajectory)"
proof -
  let ?d = "map (\<lambda>t. fabs (fsub t current_time)) time_trajectory"
  have dne: "?d \<noteq> []" using ne by simp
  have "\<forall>j. Suc j < length ?d \<longrightarrow> fgt (?d ! j) (last ?d)"
    using nearest ne by (simp add: last_map)
  from np_argmin64_last [OF dne this]
  have am: "np_argmin64 ?d = Inr (length time_trajectory - 1)" by simp
  have pne: "position_trajectory \<noteq> []" and yne: "yaw_trajectory \<noteq> []"
    using ne lp ly by auto
  have idx: "py_index time_trajectory (int (length time_trajectory - 1)) = Inr (last time_trajectory)"
    "py_index position_trajectory (int (length time_trajectory - 1)) = Inr (last position_trajectory)"
    "py_index yaw_trajectory (int (length time_trajectory - 1)) = Inr (last yaw_trajectory)"
    using py_index_last [OF ne] py_index_last [OF pne] py_index_last [OF yne] lp ly by simp_all
  have after: "\<not> flt current_time (last time_trajectory)"
    using past by (rule fle_not_flt)
  have final: "int (length time_trajectory - 1) \<ge> int (length position_trajectory) - 1"
    using lp by simp
  have tc: "trajectory_control64 position_trajectory yaw_trajectory time_trajectory current_time =
      Inr (fst (interpolate64 (last position_trajectory) (last position_trajectory)
                  (lit 0) (lit 1) current_time),
           snd (interpolate64 (last position_trajectory) (last position_trajectory)
                  (lit 0) (lit 1) current_time),
           last yaw_trajectory)"
    using am idx after final
    by (simp add: trajectory_control64_def bindE_def Let_def split_beta)
  from interpolate64_hold [OF pos now] tc show ?thesis by simp
qed

text \<open>
  Waypoints at times 0 and 2, sampled at time 5: the distances are 5 and 3, and the
  final waypoint \<open>(2, 0, 0)\<close> is held.
\<close>

theorem hold_past_final_waypoint_witness:
  "finite64 (lit 5) \<and> vfinite64 (lit 2, lit 0, lit 0) \<and> fle (lit 2) (lit 5) \<and>
   fgt (fabs (fsub (lit 0) (lit 5))) (fabs (fsub (lit 2) (lit 5))) \<and>
   (\<exists>position_cmd.
      trajectory_control64 [(lit 0, lit 0, lit 0), (lit 2, lit 0, lit 0)] [lit 0.5, lit 1.5]
        [lit 0, lit 2] (lit 5) = Inr (position_cmd, (lit 0, lit 0, lit 0), lit 1.5) \<and>
      veq64 position_cmd (lit 2, lit 0, lit 0))"
proof -
  have now: "finite64 (lit 5)" and pos: "vfinite64 (lit 2, lit 0, lit 0)"
    and past: "fle (lit 2) (lit 5)"
    and near: "fgt (fabs (fsub (lit 0) (lit 5))) (fabs (fsub (lit 2) (lit 5)))"
    by (simp_all add: finite64_def vfinite64_def f64_eval)
  have nearest: "\<forall>j. Suc j < length [lit 0, lit 2] \<longrightarrow>
      fgt (fabs (fsub ([lit 0, lit 2] ! j) (lit 5))) (fabs (fsub (last [lit 0, lit 2]) (lit 5)))"
    using near by simp
  show ?thesis
    using hold_past_final_waypoint
      [of "[lit 0, lit 2]" "[(lit 0, lit 0, lit 0), (lit 2, lit 0, lit 0)]" "[lit 0.5, lit 1.5]"
        "lit 5", OF _ _ _ now _ _ nearest]
      now pos past near
    by simp
qed

text \<open>
  Stated for every trajectory, the property fails. With timestamps 0, 1, 1 and current
  time 1 the nearest sample is the first of the two at time 1, not the last one; the
  sampler interpolates between the two and divides by their time span 0. With the
  strictly increasing timestamps 0, 1 and current time \<open>1e17\<close> both distances round to
  \<open>1e17\<close>, the nearest sample is the first one, and the sampler extrapolates to the
  position \<open>1e17\<close> with the first sample's yaw.
\<close>

theorem hold_past_final_waypoint_counterexample:
  "trajectory_control64 [(lit 0, lit 0, lit 0), (lit 1, lit 0, lit 0), (lit 2, lit 0, lit 0)]
     [lit 0, lit 0, lit 0] [lit 0, lit 1, lit 1] (lit 1) =
     Inr ((NaN, NaN, NaN), (Inf False, NaN, NaN), lit 0) \<and>
   trajectory_control64 [(lit 0, lit 0, lit 0), (lit 1, lit 0, lit 0)] [lit 0.1, lit 0.2]
     [lit 0, lit 1] (lit (10 ^ 17)) =
     Inr ((lit (10 ^ 17), lit 0, lit 0), (lit 1, lit 0, lit 0), lit 0.1)"
  by (simp add: trajectory_control64_def np_argmin64_def bindE_def py_index_def interpolate64_def
      vsub64_def vadd64_def vscale64_def vdiv64_def f64_eval)

subsection \<open>The yaw command before the first waypoint\<close>

text \<open>
  Claim C7. When the current time precedes the nearest sample, the yaw command is to
  be the earlier sample's yaw. The code does not keep this at the start of the
  trajectory: with timestamps 1, 3, 5 and current time 0 the nearest index is 0, the
  code reads \<open>yaw_trajectory[0 - 1]\<close>, and the yaw command is \<open>0.3\<close>, the yaw of the last
  sample.
\<close>

theorem yaw_before_start_wraps:
  "trajectory_control64 [(lit 0, lit 0, lit 0), (lit 2, lit 0, lit 0), (lit 4, lit 0, lit 0)]
     [lit 0.1, lit 0.2, lit 0.3] [lit 1, lit 3, lit 5] (lit 0) =
   Inr ((lit (- 1), lit 0, lit 0), (lit 1, fneg (lit 0), fneg (lit 0)), lit 0.3)"
  by (simp add: trajectory_control64_def np_argmin64_def bindE_def py_index_def interpolate64_def
      vsub64_def vadd64_def vscale64_def vdiv64_def f64_eval)

subsection \<open>Exactly at a waypoint\<close>


end
